theory Spec2Isabelle
  imports Main
begin

section \<open>Python strings\<close>

text \<open>
  A Python \<open>str\<close> is a sequence of Unicode code points, and \<open>len\<close> counts code points.
  The model therefore takes a character to be its code point (a natural number) and a
  string to be a list of them. \<open>str_of\<close> reads an ASCII literal of the theory as such
  a string.
\<close>

type_synonym codepoint = nat
type_synonym pystr = "codepoint list"

definition str_of :: "string \<Rightarrow> pystr" where
  "str_of s = map of_char s"

text \<open>The bullet U+2022 and the line feed, which the source writes in its literals.\<close>

definition bullet :: codepoint where
  "bullet = 8226"

definition newline :: codepoint where
  "newline = 10"

text \<open>
  \<open>str.strip()\<close> and the regular expression class \<open>\s\<close> use the same table of
  Unicode white space: U+0009..U+000D, U+001C..U+0020, U+0085, U+00A0, U+1680,
  U+2000..U+200A, U+2028, U+2029, U+202F, U+205F, U+3000.
\<close>

definition is_space :: "codepoint \<Rightarrow> bool" where
  "is_space c \<longleftrightarrow>
     (9 \<le> c \<and> c \<le> 13) \<or> (28 \<le> c \<and> c \<le> 32) \<or> c = 133 \<or> c = 160 \<or> c = 5760 \<or>
     (8192 \<le> c \<and> c \<le> 8202) \<or> c = 8232 \<or> c = 8233 \<or> c = 8239 \<or> c = 8287 \<or> c = 12288"

definition is_lower :: "codepoint \<Rightarrow> bool" where
  "is_lower c \<longleftrightarrow> 97 \<le> c \<and> c \<le> 122"

definition is_upper :: "codepoint \<Rightarrow> bool" where
  "is_upper c \<longleftrightarrow> 65 \<le> c \<and> c \<le> 90"

definition is_digit :: "codepoint \<Rightarrow> bool" where
  "is_digit c \<longleftrightarrow> 48 \<le> c \<and> c \<le> 57"

text \<open>
  The class \<open>\w\<close> is \<open>str.isalnum\<close> or the underscore. On ASCII that is written out;
  beyond ASCII it is a table of the Unicode character database, which is no part of the
  repository: the model takes it as the parameter \<open>alnum\<close>.
\<close>

type_synonym unicode_db = "codepoint \<Rightarrow> bool"

definition is_word :: "unicode_db \<Rightarrow> codepoint \<Rightarrow> bool" where
  "is_word alnum c \<longleftrightarrow>
     (if c < 128 then is_lower c \<or> is_upper c \<or> is_digit c \<or> c = 95 else alnum c)"

definition lstrip :: "pystr \<Rightarrow> pystr" where
  "lstrip s = dropWhile is_space s"

definition rstrip :: "pystr \<Rightarrow> pystr" where
  "rstrip s = rev (dropWhile is_space (rev s))"

definition strip :: "pystr \<Rightarrow> pystr" where
  "strip s = rstrip (lstrip s)"

text \<open>\<open>needle in s\<close> on strings: \<open>needle\<close> occurs in \<open>s\<close> as a contiguous slice.\<close>

fun starts_with :: "pystr \<Rightarrow> pystr \<Rightarrow> bool" where
  "starts_with s [] = True"
| "starts_with [] (p # ps) = False"
| "starts_with (c # cs) (p # ps) = (c = p \<and> starts_with cs ps)"

fun contains :: "pystr \<Rightarrow> pystr \<Rightarrow> bool" where
  "contains [] needle = (needle = [])"
| "contains (c # cs) needle = (starts_with (c # cs) needle \<or> contains cs needle)"

text \<open>\<open>sep.join(parts)\<close>.\<close>

fun join :: "pystr \<Rightarrow> pystr list \<Rightarrow> pystr" where
  "join sep [] = []"
| "join sep [p] = p"
| "join sep (p # q # ps) = p @ sep @ join sep (q # ps)"

section \<open>The regular expressions of the source\<close>

text \<open>
  \<open>re.split(r'[.!?]+', text)\<close>: the pieces of \<open>text\<close> between the maximal runs of
  sentence terminators. The result has one piece more than there are runs, so it is never
  empty, and a piece may be the empty string.
\<close>

definition is_terminator :: "codepoint \<Rightarrow> bool" where
  "is_terminator c \<longleftrightarrow> c = 46 \<or> c = 33 \<or> c = 63"

function re_split_sentences :: "pystr \<Rightarrow> pystr list" where
  "re_split_sentences text =
     (let piece = takeWhile (\<lambda>c. \<not> is_terminator c) text;
          rest = dropWhile (\<lambda>c. \<not> is_terminator c) text
      in if rest = [] then [piece]
         else piece # re_split_sentences (dropWhile is_terminator rest))"
  by pat_completeness auto
termination
proof (relation "measure length")
  show "wf (measure length)" by simp
next
  fix s :: pystr and piece rest
  assume r: "rest = dropWhile (\<lambda>c. \<not> is_terminator c) s" and ne: "rest \<noteq> []"
  from ne obtain c cs where rc: "rest = c # cs" by (cases rest) auto
  have "dropWhile (\<lambda>c. \<not> is_terminator c) s \<noteq> []" using r ne by simp
  then have "\<not> \<not> is_terminator (hd (dropWhile (\<lambda>c. \<not> is_terminator c) s))"
    by (rule hd_dropWhile)
  then have "is_terminator c" using r rc by (metis list.sel(1))
  then have "length (dropWhile is_terminator rest) \<le> length cs"
    using rc length_dropWhile_le [of is_terminator cs] by simp
  moreover have "length rest \<le> length s"
    using r length_dropWhile_le [of "\<lambda>c. \<not> is_terminator c" s] by simp
  ultimately show "(dropWhile is_terminator rest, s) \<in> measure length"
    using rc by simp
qed

declare re_split_sentences.simps [simp del]

text \<open>
  \<open>re.sub(r'\s+', ' ', text)\<close>: every maximal run of white space becomes one space.
  The flag says whether the character before was white space, that is, whether the run
  has already been replaced.
\<close>

fun sub_whitespace :: "bool \<Rightarrow> pystr \<Rightarrow> pystr" where
  "sub_whitespace in_run [] = []"
| "sub_whitespace in_run (c # cs) =
     (if is_space c then (if in_run then sub_whitespace True cs else 32 # sub_whitespace True cs)
      else c # sub_whitespace False cs)"

text \<open>
  \<open>re.sub(r'[^\w\s\.\,\!\?\;]', '', text)\<close>: only word characters, white space and
  the five punctuation marks are kept.
\<close>

definition sub_special :: "unicode_db \<Rightarrow> pystr \<Rightarrow> pystr" where
  "sub_special db s =
     filter (\<lambda>c. is_word db c \<or> is_space c \<or> c = 46 \<or> c = 44 \<or> c = 33 \<or> c = 63 \<or> c = 59) s"

text \<open>
  \<open>re.sub(r'([a-z])([A-Z])', r'\1. \2', text)\<close>: matches do not overlap, and the search
  goes on after the upper-case letter of a match.
\<close>

fun sub_camel :: "pystr \<Rightarrow> pystr" where
  "sub_camel (a # b # cs) =
     (if is_lower a \<and> is_upper b then a # 46 # 32 # b # sub_camel cs
      else a # sub_camel (b # cs))"
| "sub_camel s = s"

text \<open>
  \<open>re.sub(f'\\b{word}\\b', f'**{word}**', text, flags=re.IGNORECASE)\<close> for a word of
  lower-case ASCII letters. Under IGNORECASE a pattern letter matches itself, its upper-case
  letter, and the code points Python's engine adds: U+0130 and U+0131 for \<open>i\<close>, U+017F for
  \<open>s\<close>, U+212A for \<open>k\<close>. \<open>\b\<close> holds between two positions of which exactly one is a word
  character, the ends of the string counting as no word character. The replacement is
  the pattern's word, not the matched text.
\<close>

definition ci_eq :: "codepoint \<Rightarrow> codepoint \<Rightarrow> bool" where
  "ci_eq p c \<longleftrightarrow>
     c = p \<or> (is_lower p \<and> c + 32 = p) \<or> (p = 105 \<and> (c = 304 \<or> c = 305)) \<or>
     (p = 115 \<and> c = 383) \<or> (p = 107 \<and> c = 8490)"

fun ci_starts_with :: "pystr \<Rightarrow> pystr \<Rightarrow> bool" where
  "ci_starts_with s [] = True"
| "ci_starts_with [] (p # ps) = False"
| "ci_starts_with (c # cs) (p # ps) = (ci_eq p c \<and> ci_starts_with cs ps)"

definition head :: "pystr \<Rightarrow> codepoint option" where
  "head s = (case s of [] \<Rightarrow> None | c # _ \<Rightarrow> Some c)"

definition word_at :: "unicode_db \<Rightarrow> codepoint option \<Rightarrow> bool" where
  "word_at db pos = (case pos of None \<Rightarrow> False | Some c \<Rightarrow> is_word db c)"

definition boundary :: "unicode_db \<Rightarrow> codepoint option \<Rightarrow> codepoint option \<Rightarrow> bool" where
  "boundary db l r \<longleftrightarrow> word_at db l \<noteq> word_at db r"

definition match_word :: "unicode_db \<Rightarrow> pystr \<Rightarrow> codepoint option \<Rightarrow> pystr \<Rightarrow> bool" where
  "match_word db w prev s \<longleftrightarrow>
     w \<noteq> [] \<and> boundary db prev (head s) \<and> ci_starts_with s w \<and>
     boundary db (Some (last (take (length w) s))) (head (drop (length w) s))"

function sub_word :: "unicode_db \<Rightarrow> pystr \<Rightarrow> codepoint option \<Rightarrow> pystr \<Rightarrow> pystr" where
  "sub_word db w prev [] = []"
| "sub_word db w prev (c # cs) =
     (if match_word db w prev (c # cs)
      then str_of ''**'' @ w @ str_of ''**'' @
           sub_word db w (Some (last (take (length w) (c # cs)))) (drop (length w) (c # cs))
      else c # sub_word db w (Some c) cs)"
  by pat_completeness auto
termination
  by (relation "measure (\<lambda>(db, w, prev, s). length s)") (auto simp: match_word_def)

text \<open>
  \<open>re.findall\<close> for the patterns of the source, which all have the shape
  \<open>[Xx]rest \w+\<close>: one of two first letters, a literal, and a non-empty maximal run of
  word characters. A pattern is the pair of the first letters and the literal. Matches are
  found from left to right and do not overlap.
\<close>

type_synonym pattern = "pystr \<times> pystr"

definition match_at :: "unicode_db \<Rightarrow> pattern \<Rightarrow> pystr \<Rightarrow> pystr option" where
  "match_at db pat s =
     (case s of [] \<Rightarrow> None
      | c # cs \<Rightarrow>
          if c \<in> set (fst pat) \<and> starts_with cs (snd pat)
          then (let run = takeWhile (is_word db) (drop (length (snd pat)) cs)
                in if run = [] then None else Some (c # snd pat @ run))
          else None)"

function findall :: "unicode_db \<Rightarrow> pattern \<Rightarrow> pystr \<Rightarrow> pystr list" where
  "findall db pat [] = []"
| "findall db pat (c # cs) =
     (case match_at db pat (c # cs) of
        None \<Rightarrow> findall db pat cs
      | Some m \<Rightarrow> m # findall db pat (drop (length m - 1) cs))"
  by pat_completeness auto
termination
  by (relation "measure (\<lambda>(db, pat, s). length s)") auto

section \<open>Summary post-processing\<close>

text \<open>
  The configuration is a dictionary from strings to strings; a missing key raises
  \<open>KeyError\<close> where the source indexes it.
\<close>

type_synonym config = "pystr \<rightharpoonup> pystr"

definition bullet_line :: "pystr \<Rightarrow> pystr" where
  "bullet_line s = bullet # 32 # s"

definition format_as_bullets :: "pystr \<Rightarrow> pystr" where
  "format_as_bullets s =
     join [newline]
       (map bullet_line
         (filter (\<lambda>sentence. sentence \<noteq> [] \<and> length sentence > 10)
           (map strip (re_split_sentences s))))"

definition format_as_executive_summary :: "pystr \<Rightarrow> pystr" where
  "format_as_executive_summary s = str_of ''**Executive Summary:**'' @ [newline, newline] @ s"

definition key_words :: "pystr list" where
  "key_words = map str_of [''important'', ''key'', ''main'', ''primary'', ''significant'', ''crucial'']"

definition emphasize_key_points :: "unicode_db \<Rightarrow> pystr \<Rightarrow> pystr" where
  "emphasize_key_points db s = foldl (\<lambda>t word. sub_word db word None t) s key_words"

definition action_patterns :: "pattern list" where
  "action_patterns =
     [(str_of ''Nn'', str_of ''eed to ''), (str_of ''Ss'', str_of ''hould ''),
      (str_of ''Ww'', str_of ''ill ''), (str_of ''Mm'', str_of ''ust ''),
      (str_of ''Pp'', str_of ''lan to '')]"

definition extract_action_items :: "unicode_db \<Rightarrow> pystr \<Rightarrow> pystr" where
  "extract_action_items db s =
     (let actions = concat (map (\<lambda>pat. findall db pat s) action_patterns)
      in if actions \<noteq> []
         then str_of ''**Action Items:**'' @ [newline] @ join [newline] (map bullet_line actions)
         else s)"

definition decision_patterns :: "pattern list" where
  "decision_patterns =
     [(str_of ''Dd'', str_of ''ecided to ''), (str_of ''Aa'', str_of ''greed to ''),
      (str_of ''Cc'', str_of ''hose to ''), (str_of ''Rr'', str_of ''esolved to '')]"

definition extract_decisions :: "unicode_db \<Rightarrow> pystr \<Rightarrow> pystr" where
  "extract_decisions db s =
     (let decisions = concat (map (\<lambda>pat. findall db pat s) decision_patterns)
      in if decisions \<noteq> []
         then str_of ''**Decisions Made:**'' @ [newline] @ join [newline] (map bullet_line decisions)
         else s)"

text \<open>
  \<open>post_process_summary\<close> runs in a \<open>try\<close> whose handler returns the variable
  \<open>summary\<close> as it stands: the input when \<open>config['style']\<close> is missing, the styled text
  when \<open>config['focus']\<close> is missing.
\<close>

definition post_process_summary :: "unicode_db \<Rightarrow> pystr \<Rightarrow> config \<Rightarrow> pystr" where
  "post_process_summary db summary config =
     (case config (str_of ''style'') of
        None \<Rightarrow> summary
      | Some style \<Rightarrow>
          (let styled =
                 (if style = str_of ''Bullet Points'' then format_as_bullets summary
                  else if style = str_of ''Executive Summary''
                       then format_as_executive_summary summary
                  else summary)
           in case config (str_of ''focus'') of
                None \<Rightarrow> styled
              | Some focus \<Rightarrow>
                  if focus = str_of ''Key Points'' then emphasize_key_points db styled
                  else if focus = str_of ''Action Items'' then extract_action_items db styled
                  else if focus = str_of ''Decisions Made'' then extract_decisions db styled
                  else styled))"

section \<open>Length bounds\<close>

text \<open>
  \<open>get_length_params\<close> tests which of the words Short, Medium, Long occurs in the
  setting, in that order, and falls back to the bounds of Medium.
\<close>

definition get_length_params :: "pystr \<Rightarrow> int \<times> int" where
  "get_length_params length_setting =
     (if contains length_setting (str_of ''Short'') then (10, 50)
      else if contains length_setting (str_of ''Medium'') then (50, 150)
      else if contains length_setting (str_of ''Long'') then (100, 300)
      else (50, 150))"

section \<open>Exceptions\<close>

text \<open>
  The exceptions the modelled code raises or receives, each with its message; \<open>str_exn\<close>
  is Python's \<open>str(e)\<close>, which for a \<open>KeyError\<close> is the key in quotes.
\<close>

datatype exn =
    Exception pystr
  | FileNotFoundError pystr
  | KeyError pystr
  | TypeError pystr

fun str_exn :: "exn \<Rightarrow> pystr" where
  "str_exn (Exception msg) = msg"
| "str_exn (FileNotFoundError msg) = msg"
| "str_exn (KeyError k) = 39 # k @ [39]"
| "str_exn (TypeError msg) = msg"

section \<open>The summarizer object and its collaborators\<close>

text \<open>
  The tokenizer and the summarization pipeline belong to an external library. The model
  takes them as values: a tokenizer is its three operations (\<open>encode\<close> without
  truncation, \<open>encode\<close> with \<open>max_length\<close> and \<open>truncation=True\<close>, and \<open>decode\<close>), a
  pipeline is a function of the chunk, \<open>max_length\<close> and \<open>min_length\<close> (the other arguments
  of the call are constants) that raises or returns the \<open>summary_text\<close> of each result.
  The tokenizer's operations are taken not to raise.
\<close>

type_synonym token = int

record hf_tokenizer =
  encode :: "pystr \<Rightarrow> token list"
  encode_truncated :: "pystr \<Rightarrow> int \<Rightarrow> token list"
  decode :: "token list \<Rightarrow> pystr"

type_synonym pipeline = "pystr \<Rightarrow> int \<Rightarrow> int \<Rightarrow> exn + pystr list"

text \<open>
  \<open>self.summarizer\<close> and \<open>self.tokenizer\<close> start as \<open>None\<close> and are filled on first use.
\<close>

record hf_summarizer =
  summarizer :: "pipeline option"
  tokenizer :: "hf_tokenizer option"

text \<open>
  \<open>load_model\<close> is cached, so it gives the same answer at every call: the pipeline and
  tokenizer when loading succeeds (\<open>hub = Some \<dots>\<close>), and \<open>(None, None)\<close> from its handler
  when loading raises.
\<close>

type_synonym hub = "(pipeline \<times> hf_tokenizer) option"

definition load_model :: "hub \<Rightarrow> pipeline option \<times> hf_tokenizer option" where
  "load_model hub = (case hub of None \<Rightarrow> (None, None) | Some (p, t) \<Rightarrow> (Some p, Some t))"

definition reload :: "hf_summarizer \<Rightarrow> hub \<Rightarrow> hf_summarizer" where
  "reload self hub = self\<lparr>summarizer := fst (load_model hub), tokenizer := snd (load_model hub)\<rparr>"

section \<open>Chunking\<close>

text \<open>
  The loop of \<open>chunk_text\<close> over the sentences, with its two variables \<open>chunks\<close> and
  \<open>current_chunk\<close>. A sentence is truncated only in the innermost branch, when
  \<open>current_chunk\<close> is empty.
\<close>

fun chunk_sentences ::
  "hf_tokenizer \<Rightarrow> int \<Rightarrow> pystr list \<Rightarrow> pystr list \<Rightarrow> pystr \<Rightarrow> pystr list \<times> pystr" where
  "chunk_sentences tk max_length [] chunks current_chunk = (chunks, current_chunk)"
| "chunk_sentences tk max_length (sentence # sentences) chunks current_chunk =
     (let test_chunk = current_chunk @ sentence @ str_of ''. ''
      in if int (length (encode tk test_chunk)) \<le> max_length
         then chunk_sentences tk max_length sentences chunks test_chunk
         else if current_chunk \<noteq> []
         then chunk_sentences tk max_length sentences
                (chunks @ [strip current_chunk]) (sentence @ str_of ''. '')
         else chunk_sentences tk max_length sentences
                (chunks @ [decode tk (encode_truncated tk sentence max_length)]) current_chunk)"

text \<open>
  \<open>chunk_text\<close> returns the chunks and the object, whose fields it may have filled.
  With no tokenizer after loading, \<open>self.tokenizer.encode\<close> raises and the handler
  returns the first 2000 characters as the only chunk.
\<close>

definition chunk_text ::
  "hf_summarizer \<Rightarrow> hub \<Rightarrow> pystr \<Rightarrow> int \<Rightarrow> pystr list \<times> hf_summarizer" where
  "chunk_text self hub text max_length =
     (let self1 = (if tokenizer self = None then reload self hub else self)
      in case tokenizer self1 of
           None \<Rightarrow> ([take 2000 text], self1)
         | Some tk \<Rightarrow>
             if int (length (encode tk text)) \<le> max_length then ([text], self1)
             else (let (chunks, current_chunk) =
                         chunk_sentences tk max_length (re_split_sentences text) [] []
                   in (if current_chunk \<noteq> [] then chunks @ [strip current_chunk] else chunks,
                       self1)))"

section \<open>Summarization\<close>

definition clean_text :: "unicode_db \<Rightarrow> pystr \<Rightarrow> pystr" where
  "clean_text db text = strip (sub_camel (sub_special db (sub_whitespace False text)))"

text \<open>
  One call \<open>self.summarizer(chunk, \<dots>)\<close>. The log lists the chunks the pipeline was
  invoked on; with \<open>self.summarizer\<close> being \<open>None\<close> the call raises \<open>TypeError\<close> and invokes
  nothing.
\<close>

definition call_summarizer ::
  "hf_summarizer \<Rightarrow> int \<Rightarrow> int \<Rightarrow> pystr \<Rightarrow> pystr list \<Rightarrow> (exn + pystr list) \<times> pystr list" where
  "call_summarizer self max_length min_length chunk log =
     (case summarizer self of
        None \<Rightarrow>
          (Inl (TypeError (39 # str_of ''NoneType'' @ 39 # str_of '' object is not callable'')), log)
      | Some p \<Rightarrow> (p chunk max_length min_length, log @ [chunk]))"

text \<open>
  The loop over the chunks: an exception of the call is caught and the chunk skipped, an
  empty result is skipped, otherwise the first result's text is appended.
\<close>

fun summarize_chunks ::
  "hf_summarizer \<Rightarrow> int \<Rightarrow> int \<Rightarrow> pystr list \<Rightarrow> pystr list \<Rightarrow> pystr list \<Rightarrow>
   pystr list \<times> pystr list" where
  "summarize_chunks self max_length min_length [] chunk_summaries log = (chunk_summaries, log)"
| "summarize_chunks self max_length min_length (chunk # chunks) chunk_summaries log =
     (case call_summarizer self max_length min_length chunk log of
        (Inl e, log') \<Rightarrow> summarize_chunks self max_length min_length chunks chunk_summaries log'
      | (Inr [], log') \<Rightarrow> summarize_chunks self max_length min_length chunks chunk_summaries log'
      | (Inr (s # _), log') \<Rightarrow>
          summarize_chunks self max_length min_length chunks (chunk_summaries @ [s]) log')"

text \<open>
  The body of the \<open>try\<close> of \<open>summarize\<close>: the value returned or the exception raised,
  the object afterwards, and the log of pipeline invocations.
\<close>

definition summarize_body ::
  "hf_summarizer \<Rightarrow> hub \<Rightarrow> unicode_db \<Rightarrow> pystr \<Rightarrow> config \<Rightarrow>
   (exn + pystr) \<times> hf_summarizer \<times> pystr list" where
  "summarize_body self hub db text config =
     (if text = [] \<or> length (strip text) < 50
      then (Inr (str_of ''Text too short to summarize effectively.''), self, [])
      else
        (let self1 = (if summarizer self = None then reload self hub else self)
         in if summarizer self1 = None
            then (Inl (Exception (str_of ''Failed to load summarization model'')), self1, [])
            else
              (let cleaned_text = clean_text db text
               in case config (str_of ''length'') of
                    None \<Rightarrow> (Inl (KeyError (str_of ''length'')), self1, [])
                  | Some length_setting \<Rightarrow>
                      (let (min_length, max_length) = get_length_params length_setting;
                           (chunks, self2) = chunk_text self1 hub cleaned_text 1024;
                           (chunk_summaries, log) =
                              summarize_chunks self2 max_length min_length chunks [] []
                       in if chunk_summaries = []
                          then (Inr (str_of ''Could not generate summary.''), self2, log)
                          else (Inr (post_process_summary db
                                       (join (str_of '' '') chunk_summaries) config),
                                self2, log)))))"

text \<open>The handler of \<open>summarize\<close> turns every exception of the body into a string.\<close>

definition summarize ::
  "hf_summarizer \<Rightarrow> hub \<Rightarrow> unicode_db \<Rightarrow> pystr \<Rightarrow> config \<Rightarrow>
   (exn + pystr) \<times> hf_summarizer \<times> pystr list" where
  "summarize self hub db text config =
     (case summarize_body self hub db text config of
        (Inl e, self', log) \<Rightarrow> (Inr (str_of ''Summarization failed: '' @ str_exn e), self', log)
      | (Inr s, self', log) \<Rightarrow> (Inr s, self', log))"

section \<open>Transcription\<close>

text \<open>
  The speech model is a function of the path and the language hint that raises or returns
  the \<open>text\<close> field of its result; \<open>os.path.exists\<close> is the predicate \<open>path_exists\<close>; the
  cached loader gives the model or \<open>None\<close>.
\<close>

type_synonym whisper_model = "pystr \<Rightarrow> pystr option \<Rightarrow> exn + pystr"

record whisper_transcriber =
  model :: "whisper_model option"

definition transcribe_body ::
  "whisper_transcriber \<Rightarrow> whisper_model option \<Rightarrow> (pystr \<Rightarrow> bool) \<Rightarrow> pystr \<Rightarrow> pystr option \<Rightarrow>
   (exn + pystr) \<times> whisper_transcriber" where
  "transcribe_body self loaded path_exists audio_file_path language =
     (if \<not> path_exists audio_file_path
      then (Inl (FileNotFoundError (str_of ''Audio file not found: '' @ audio_file_path)), self)
      else
        (let self1 = (if model self = None then self\<lparr>model := loaded\<rparr> else self)
         in case model self1 of
              None \<Rightarrow> (Inl (Exception (str_of ''Failed to load Whisper model'')), self1)
            | Some m \<Rightarrow>
                (case m audio_file_path language of
                   Inl e \<Rightarrow> (Inl e, self1)
                 | Inr text \<Rightarrow>
                     (let transcribed_text = strip text
                      in if transcribed_text = []
                         then (Inr (str_of ''No speech detected in the audio file.''), self1)
                         else (Inr transcribed_text, self1)))))"

definition transcribe ::
  "whisper_transcriber \<Rightarrow> whisper_model option \<Rightarrow> (pystr \<Rightarrow> bool) \<Rightarrow> pystr \<Rightarrow> pystr option \<Rightarrow>
   (exn + pystr) \<times> whisper_transcriber" where
  "transcribe self loaded path_exists audio_file_path language =
     (case transcribe_body self loaded path_exists audio_file_path language of
        (Inl e, self') \<Rightarrow> (Inr (str_of ''Transcription failed: '' @ str_exn e), self')
      | (Inr s, self') \<Rightarrow> (Inr s, self'))"

section \<open>A concrete tokenizer for examples\<close>

text \<open>
  A tokenizer with one token per character: the token is the code point, truncation keeps
  the first \<open>max_length\<close> tokens, and decoding gives the characters back.
\<close>

definition char_tokenizer :: hf_tokenizer where
  "char_tokenizer =
     \<lparr>encode = map int,
      encode_truncated = (\<lambda>s max_length. take (nat max_length) (map int s)),
      decode = map nat\<rparr>"

section \<open>Concrete collaborators for examples\<close>

text \<open>
  A Unicode table with no alphanumeric character beyond ASCII, a summarizer object as the
  constructor leaves it, one whose tokenizer is loaded, a pipeline that raises at every
  call and the hub that loads it, the text and the configuration of the scenario of the
  specification, a transcriber whose model is not loaded, and two file systems.
\<close>

definition ascii_only :: unicode_db where
  "ascii_only c = False"

definition fresh :: hf_summarizer where
  "fresh = \<lparr>summarizer = None, tokenizer = None\<rparr>"

definition with_tokenizer :: hf_summarizer where
  "with_tokenizer = \<lparr>summarizer = None, tokenizer = Some char_tokenizer\<rparr>"

definition failing_pipeline :: pipeline where
  "failing_pipeline chunk max_length min_length = Inl (Exception (str_of ''out of memory''))"

definition failing_hub :: hub where
  "failing_hub = Some (failing_pipeline, char_tokenizer)"

definition scenario_text :: pystr where
  "scenario_text =
     str_of ''This is a very important decision. We need to finalize it by Friday.''"

definition unloaded :: whisper_transcriber where
  "unloaded = \<lparr>model = None\<rparr>"

definition example_config :: config where
  "example_config =
     [str_of ''length'' \<mapsto> str_of ''Medium (3-5 sentences)'',
      str_of ''style'' \<mapsto> str_of ''Paragraph'',
      str_of ''focus'' \<mapsto> str_of ''Action Items'']"

definition no_file :: "pystr \<Rightarrow> bool" where
  "no_file path = False"

definition every_file :: "pystr \<Rightarrow> bool" where
  "every_file path = True"

text \<open>
  A tokenizer with twenty tokens per character, for which a text of more than 51
  characters exceeds the 1024 tokens that \<open>summarize\<close> allows a chunk; a pipeline that
  raises on every chunk that mentions Friday and echoes every other chunk; the hubs that
  load them; a text of three sentences; a configuration with no focus and one with no
  keys; an object whose pipeline is set while its tokenizer is not, and one with both set.
\<close>

definition wide_tokenizer :: hf_tokenizer where
  "wide_tokenizer =
     \<lparr>encode = (\<lambda>s. concat (map (\<lambda>c. replicate 20 (int c)) s)),
      encode_truncated =
        (\<lambda>s max_length. take (nat max_length) (concat (map (\<lambda>c. replicate 20 (int c)) s))),
      decode = (\<lambda>ts. map (\<lambda>i. nat (ts ! (20 * i))) [0..<length ts div 20])\<rparr>"

definition flaky_pipeline :: pipeline where
  "flaky_pipeline chunk max_length min_length =
     (if contains chunk (str_of ''Friday'') then Inl (Exception (str_of ''out of memory''))
      else Inr [chunk])"

definition flaky_hub :: hub where
  "flaky_hub = Some (flaky_pipeline, wide_tokenizer)"

definition failing_wide_hub :: hub where
  "failing_wide_hub = Some (failing_pipeline, wide_tokenizer)"

definition three_sentences :: pystr where
  "three_sentences =
     str_of ''This is a very important decision. We need to finalize it by Friday. We should tell the whole team.''"

definition general_config :: config where
  "general_config =
     [str_of ''length'' \<mapsto> str_of ''Medium (3-5 sentences)'',
      str_of ''style'' \<mapsto> str_of ''Paragraph'',
      str_of ''focus'' \<mapsto> str_of ''General'']"

definition empty_config :: config where
  "empty_config = Map.empty"

definition half_loaded :: hf_summarizer where
  "half_loaded = \<lparr>summarizer = Some failing_pipeline, tokenizer = None\<rparr>"

definition loaded_failing :: hf_summarizer where
  "loaded_failing = \<lparr>summarizer = Some failing_pipeline, tokenizer = Some char_tokenizer\<rparr>"

text \<open>
  What one chunk adds to \<open>chunk_summaries\<close>: the first text of the call's result, and
  nothing when the call raises or returns no result.
\<close>

definition chunk_summary :: "hf_summarizer \<Rightarrow> int \<Rightarrow> int \<Rightarrow> pystr \<Rightarrow> pystr list" where
  "chunk_summary self max_length min_length chunk =
     (case fst (call_summarizer self max_length min_length chunk []) of
        Inl e \<Rightarrow> []
      | Inr [] \<Rightarrow> []
      | Inr (s # _) \<Rightarrow> [s])"

text \<open>Comparison of texts modulo white space: all white space is removed.\<close>

definition remove_whitespace :: "pystr \<Rightarrow> pystr" where
  "remove_whitespace s = filter (\<lambda>c. \<not> is_space c) s"

text \<open>
  What a text says apart from its white space and its sentence terminators: both are
  removed.
\<close>

definition text_content :: "pystr \<Rightarrow> pystr" where
  "text_content s = filter (\<lambda>c. \<not> is_space c \<and> \<not> is_terminator c) s"

section \<open>Properties\<close>

lemmas class_defs =
  is_word_def is_lower_def is_upper_def is_digit_def is_space_def is_terminator_def

text \<open>Unfolding \<open>re_split_sentences\<close> on a literal, and facts about the scenario's text.\<close>

lemma re_split_sentences_Nil: "re_split_sentences [] = [[]]"
  by (simp add: re_split_sentences.simps [of "[]"])

lemma re_split_sentences_Cons:
  "re_split_sentences (c # cs) =
     (if is_terminator c then [] # re_split_sentences (dropWhile is_terminator cs)
      else if dropWhile (\<lambda>c. \<not> is_terminator c) cs = []
      then [c # takeWhile (\<lambda>c. \<not> is_terminator c) cs]
      else (c # takeWhile (\<lambda>c. \<not> is_terminator c) cs) #
           re_split_sentences (dropWhile is_terminator (dropWhile (\<lambda>c. \<not> is_terminator c) cs)))"
  by (auto simp add: re_split_sentences.simps [of "c # cs"] Let_def)

lemmas eval_defs =
  str_of_def strip_def lstrip_def rstrip_def class_defs re_split_sentences_Nil
  re_split_sentences_Cons

lemma scenario_length: "length scenario_text = 68"
  by (simp add: scenario_text_def str_of_def)

lemma scenario_strip: "strip scenario_text = scenario_text"
  by (simp add: scenario_text_def eval_defs)

lemma scenario_clean: "clean_text db scenario_text = scenario_text"
  by (simp add: clean_text_def sub_special_def scenario_text_def eval_defs)

subsection \<open>Length bounds\<close>

text \<open>
  Claim C7. The length bounds are (10, 50) for Short, (50, 150) for Medium and (100, 300)
  for Long, both for the bare names and for the settings the interface offers, and both
  the minimum and the maximum grow strictly from Short to Medium to Long.
\<close>

theorem get_length_params_bounds:
  "get_length_params (str_of ''Short'') = (10, 50) \<and>
   get_length_params (str_of ''Medium'') = (50, 150) \<and>
   get_length_params (str_of ''Long'') = (100, 300) \<and>
   get_length_params (str_of ''Short (1-2 sentences)'') = (10, 50) \<and>
   get_length_params (str_of ''Medium (3-5 sentences)'') = (50, 150) \<and>
   get_length_params (str_of ''Long (6+ sentences)'') = (100, 300) \<and>
   fst (get_length_params (str_of ''Short'')) < fst (get_length_params (str_of ''Medium'')) \<and>
   fst (get_length_params (str_of ''Medium'')) < fst (get_length_params (str_of ''Long'')) \<and>
   snd (get_length_params (str_of ''Short'')) < snd (get_length_params (str_of ''Medium'')) \<and>
   snd (get_length_params (str_of ''Medium'')) < snd (get_length_params (str_of ''Long''))"
  by (simp add: get_length_params_def str_of_def)

subsection \<open>The short-text guard\<close>

text \<open>
  Claim C9. When the stripped text has fewer than 50 characters, \<open>summarize\<close> returns the
  fixed message, leaves the object as it was (nothing is loaded) and invokes the pipeline
  on nothing.
\<close>

theorem summarize_too_short:
  "length (strip text) < 50 \<Longrightarrow>
   summarize self hub db text config =
     (Inr (str_of ''Text too short to summarize effectively.''), self, [])"
  by (simp add: summarize_def summarize_body_def)

theorem summarize_too_short_witness:
  "length (strip (str_of ''  Too short.  '')) < 50 \<and>
   summarize fresh None ascii_only (str_of ''  Too short.  '') example_config =
     (Inr (str_of ''Text too short to summarize effectively.''), fresh, [])"
proof -
  have short: "length (strip (str_of ''  Too short.  '')) < 50"
    by (simp add: strip_def lstrip_def rstrip_def is_space_def str_of_def)
  show ?thesis
    using short summarize_too_short [OF short] by simp
qed

subsection \<open>Chunking\<close>

text \<open>
  Claim C8. With a tokenizer at hand (already in the object, or loaded on this call), a
  text of at most \<open>max_length\<close> tokens comes back as exactly one chunk, the text itself.
\<close>

theorem chunk_text_single:
  assumes "tokenizer (if tokenizer self = None then reload self hub else self) = Some tk"
    and "int (length (encode tk text)) \<le> max_length"
  shows "fst (chunk_text self hub text max_length) = [text] \<and>
         length (fst (chunk_text self hub text max_length)) = 1"
  using assms by (simp add: chunk_text_def Let_def)

theorem chunk_text_single_witness:
  "tokenizer (if tokenizer with_tokenizer = None then reload with_tokenizer None
              else with_tokenizer) = Some char_tokenizer \<and>
   int (length (encode char_tokenizer (str_of ''Hi there.''))) \<le> 1024 \<and>
   fst (chunk_text with_tokenizer None (str_of ''Hi there.'') 1024) = [str_of ''Hi there.'']"
proof -
  have tk: "tokenizer (if tokenizer with_tokenizer = None then reload with_tokenizer None
              else with_tokenizer) = Some char_tokenizer"
    by (simp add: with_tokenizer_def)
  have len: "int (length (encode char_tokenizer (str_of ''Hi there.''))) \<le> 1024"
    by (simp add: char_tokenizer_def str_of_def)
  show ?thesis
    using tk len chunk_text_single [OF tk len] by simp
qed

text \<open>
  The loop keeps the content of the sentences: once \<open>current_chunk\<close> is not empty it
  stays so, no sentence is truncated any more, and the chunks closed so far together with
  the running chunk say what the sentences said.
\<close>

lemma filter_dropWhile_disjoint:
  "(\<And>c. Q c \<Longrightarrow> \<not> P c) \<Longrightarrow> filter Q (dropWhile P s) = filter Q s"
  by (induction s) auto

lemma text_content_append: "text_content (a @ b) = text_content a @ text_content b"
  by (simp add: text_content_def)

lemma text_content_strip: "text_content (strip s) = text_content s"
proof -
  let ?Q = "\<lambda>c. \<not> is_space c \<and> \<not> is_terminator c"
  have drop: "filter ?Q (dropWhile is_space t) = filter ?Q t" for t
    by (rule filter_dropWhile_disjoint) simp
  have "text_content (rstrip t) = text_content t" for t
  proof -
    have "filter ?Q (rev (dropWhile is_space (rev t))) = rev (filter ?Q (dropWhile is_space (rev t)))"
      by (simp add: rev_filter)
    also have "\<dots> = rev (filter ?Q (rev t))" by (simp only: drop)
    also have "\<dots> = filter ?Q t" by (simp add: rev_filter)
    finally show ?thesis by (simp add: text_content_def rstrip_def)
  qed
  moreover have "text_content (lstrip t) = text_content t" for t
    by (simp add: text_content_def lstrip_def drop)
  ultimately show ?thesis by (simp add: strip_def)
qed

lemma text_content_full_stop: "text_content (str_of ''. '') = []"
  by (simp add: text_content_def str_of_def is_space_def is_terminator_def)

lemma concat_re_split_sentences:
  "concat (re_split_sentences text) = filter (\<lambda>c. \<not> is_terminator c) text"
proof (induction "text" rule: re_split_sentences.induct)
  case (1 t)
  let ?nt = "\<lambda>c. \<not> is_terminator c"
  have split: "t = takeWhile ?nt t @ dropWhile ?nt t" by simp
  show ?case
  proof (cases "dropWhile ?nt t = []")
    case True
    then have "re_split_sentences t = [takeWhile ?nt t]"
      by (simp add: re_split_sentences.simps [of t])
    moreover from True have "takeWhile ?nt t = t" by (metis split append_Nil2)
    moreover from True have "filter ?nt t = t" by (auto simp: dropWhile_eq_Nil_conv)
    ultimately show ?thesis by simp
  next
    case False
    then have "re_split_sentences t =
        takeWhile ?nt t # re_split_sentences (dropWhile is_terminator (dropWhile ?nt t))"
      by (subst re_split_sentences.simps) (simp only: Let_def if_False)
    moreover have "concat (re_split_sentences (dropWhile is_terminator (dropWhile ?nt t))) =
        filter ?nt (dropWhile is_terminator (dropWhile ?nt t))"
      using "1.IH" [OF refl refl False] .
    moreover have "filter ?nt (dropWhile is_terminator (dropWhile ?nt t)) = filter ?nt (dropWhile ?nt t)"
      by (rule filter_dropWhile_disjoint) simp
    moreover have "filter ?nt (takeWhile ?nt t) = takeWhile ?nt t"
      by (simp add: filter_id_conv) (metis set_takeWhileD)
    moreover have "filter ?nt t = filter ?nt (takeWhile ?nt t) @ filter ?nt (dropWhile ?nt t)"
      by (metis filter_append takeWhile_dropWhile_id)
    ultimately show ?thesis by simp
  qed
qed

lemma text_content_sentences:
  "text_content (concat (re_split_sentences text)) = text_content text"
proof -
  have "filter (\<lambda>c. \<not> is_space c \<and> \<not> is_terminator c) (filter (\<lambda>c. \<not> is_terminator c) text) =
        filter (\<lambda>c. \<not> is_space c \<and> \<not> is_terminator c) text"
    by (induction "text") auto
  then show ?thesis by (simp only: concat_re_split_sentences text_content_def)
qed

lemma chunk_sentences_content:
  "current_chunk \<noteq> [] \<Longrightarrow>
   chunk_sentences tk max_length sentences chunks current_chunk = (chunks', current') \<Longrightarrow>
   current' \<noteq> [] \<and>
   text_content (concat chunks' @ current') =
     text_content (concat chunks @ current_chunk @ concat sentences)"
proof (induction sentences arbitrary: chunks current_chunk)
  case Nil
  then show ?case by simp
next
  case (Cons sentence sentences)
  show ?case
  proof (cases "int (length (encode tk (current_chunk @ sentence @ str_of ''. ''))) \<le> max_length")
    case True
    with Cons.prems have
      "chunk_sentences tk max_length sentences chunks (current_chunk @ sentence @ str_of ''. '') =
         (chunks', current')"
      by (simp add: Let_def)
    moreover have "current_chunk @ sentence @ str_of ''. '' \<noteq> []" using Cons.prems by simp
    ultimately show ?thesis
      using Cons.IH [of "current_chunk @ sentence @ str_of ''. ''" chunks]
      by (simp add: text_content_append text_content_full_stop)
  next
    case False
    with Cons.prems have
      "chunk_sentences tk max_length sentences (chunks @ [strip current_chunk])
         (sentence @ str_of ''. '') = (chunks', current')"
      by (simp add: Let_def)
    moreover have "sentence @ str_of ''. '' \<noteq> []" by (simp add: str_of_def)
    ultimately show ?thesis
      using Cons.IH [of "sentence @ str_of ''. ''" "chunks @ [strip current_chunk]"]
      by (simp add: text_content_append text_content_full_stop text_content_strip)
  qed
qed

text \<open>
  Claim C2, as stated, fails. With one token per character and a budget of 5 tokens the
  text "Hi! Yo? Ok" gives the three chunks "Hi.", "Yo.", "Ok.", none of them truncated,
  and their concatenation differs from the text even with all white space removed: the
  terminators \<open>!\<close> and \<open>?\<close> have become full stops and a full stop has been added.
\<close>

theorem chunks_alter_terminators:
  "fst (chunk_text with_tokenizer None (str_of ''Hi! Yo? Ok'') 5) =
     [str_of ''Hi.'', str_of ''Yo.'', str_of ''Ok.''] \<and>
   remove_whitespace (concat [str_of ''Hi.'', str_of ''Yo.'', str_of ''Ok.'']) \<noteq>
   remove_whitespace (str_of ''Hi! Yo? Ok'')"
  by (simp add: chunk_text_def with_tokenizer_def char_tokenizer_def eval_defs remove_whitespace_def)

text \<open>
  Claim C2, amended. With a tokenizer at hand, and the first sentence with its ". " within
  the budget (so that no sentence is truncated: the truncating branch is only reached
  while \<open>current_chunk\<close> is empty), the concatenation of the chunks equals the text once
  white space and the sentence terminators are removed from both.
\<close>

theorem chunk_text_content:
  assumes tk: "tokenizer (if tokenizer self = None then reload self hub else self) = Some tk"
    and first: "re_split_sentences text = first_sentence # others"
    and fits: "int (length (encode tk (first_sentence @ str_of ''. ''))) \<le> max_length"
  shows "text_content (concat (fst (chunk_text self hub text max_length))) = text_content text"
proof (cases "int (length (encode tk text)) \<le> max_length")
  case True
  with tk show ?thesis by (simp add: chunk_text_def Let_def)
next
  case False
  obtain chunks current where
    loop: "chunk_sentences tk max_length others [] (first_sentence @ str_of ''. '') = (chunks, current)"
    by (cases "chunk_sentences tk max_length others [] (first_sentence @ str_of ''. '')")
  have ne: "first_sentence @ str_of ''. '' \<noteq> []" by (simp add: str_of_def)
  from chunk_sentences_content [OF ne loop]
  have cur: "current \<noteq> []"
    and eq: "text_content (concat chunks @ current) =
             text_content (concat [] @ (first_sentence @ str_of ''. '') @ concat others)"
    by simp_all
  have all: "chunk_sentences tk max_length (re_split_sentences text) [] [] = (chunks, current)"
    using first fits loop by (simp add: Let_def)
  have "fst (chunk_text self hub text max_length) = chunks @ [strip current]"
    using tk False all cur by (simp add: chunk_text_def Let_def)
  then have "text_content (concat (fst (chunk_text self hub text max_length))) =
             text_content (concat chunks @ current)"
    by (simp add: text_content_append text_content_strip)
  also have "\<dots> = text_content (concat (re_split_sentences text))"
    using eq first by (simp add: text_content_append text_content_full_stop)
  finally show ?thesis by (simp add: text_content_sentences)
qed

theorem chunk_text_content_witness:
  "tokenizer (if tokenizer with_tokenizer = None then reload with_tokenizer None
              else with_tokenizer) = Some char_tokenizer \<and>
   re_split_sentences (str_of ''Hi! Yo? Ok'') = [str_of ''Hi'', str_of '' Yo'', str_of '' Ok''] \<and>
   int (length (encode char_tokenizer (str_of ''Hi'' @ str_of ''. ''))) \<le> 5 \<and>
   text_content (concat (fst (chunk_text with_tokenizer None (str_of ''Hi! Yo? Ok'') 5))) =
     text_content (str_of ''Hi! Yo? Ok'')"
proof -
  have tk: "tokenizer (if tokenizer with_tokenizer = None then reload with_tokenizer None
              else with_tokenizer) = Some char_tokenizer"
    by (simp add: with_tokenizer_def)
  have first: "re_split_sentences (str_of ''Hi! Yo? Ok'') = str_of ''Hi'' # [str_of '' Yo'', str_of '' Ok'']"
    by (simp add: eval_defs)
  have fits: "int (length (encode char_tokenizer (str_of ''Hi'' @ str_of ''. ''))) \<le> 5"
    by (simp add: char_tokenizer_def str_of_def)
  show ?thesis
    using tk first fits chunk_text_content [OF tk first fits] by simp
qed

text \<open>
  Claim C3 does not hold of the code. A sentence that exceeds the budget is truncated only
  when \<open>current_chunk\<close> is empty; after a sentence that fits, the long sentence becomes
  the running chunk unchecked and is emitted whole. With one token per character and a
  budget of 5 tokens, "Hi. Abcdefghij" gives the chunk "Abcdefghij." of 11 tokens.
\<close>

theorem chunk_over_budget:
  "fst (chunk_text with_tokenizer None (str_of ''Hi. Abcdefghij'') 5) =
     [str_of ''Hi.'', str_of ''Abcdefghij.''] \<and>
   int (length (encode char_tokenizer (str_of ''Abcdefghij.''))) = 11"
  by (simp add: chunk_text_def with_tokenizer_def char_tokenizer_def eval_defs)

subsection \<open>Post-processing\<close>

lemma scenario_action_items:
  "post_process_summary db scenario_text example_config =
     str_of ''**Action Items:**'' @ [newline] @ [bullet] @ str_of '' need to finalize''"
  by (simp add: post_process_summary_def example_config_def extract_action_items_def
      action_patterns_def bullet_line_def scenario_text_def str_of_def match_at_def class_defs
      newline_def)

text \<open>
  Claim C4, as stated, fails. For the text of the scenario with style Paragraph and focus
  Action Items the result does not contain "need to finalize it by Friday": the pattern
  \<open>[Nn]eed to \w+\<close> takes one word after "need to", and a bullet holds nothing but the
  match.
\<close>

theorem action_items_drops_deadline:
  "\<not> contains (post_process_summary ascii_only scenario_text example_config)
       (str_of ''need to finalize it by Friday'')"
  by (simp add: scenario_action_items) (simp add: str_of_def newline_def bullet_def)

text \<open>
  Claim C4, amended. For the text of the scenario with style Paragraph and focus Action
  Items the result is the header "**Action Items:**" and one bullet whose text is
  "need to finalize"; the first sentence and the rest of the second are gone.
\<close>

theorem action_items_scenario:
  "post_process_summary db
     (str_of ''This is a very important decision. We need to finalize it by Friday.'')
     example_config =
   str_of ''**Action Items:**'' @ [newline] @ [bullet] @ str_of '' need to finalize''"
  by (simp add: post_process_summary_def example_config_def extract_action_items_def
      action_patterns_def bullet_line_def str_of_def match_at_def class_defs newline_def)

text \<open>
  Claim C6 does not hold of the code. The substitution writes the keyword of the pattern,
  in lower case, in place of the matched text, so a keyword written with a capital loses
  it: "Important news" becomes "**important** news".
\<close>

theorem emphasize_lowercases:
  "emphasize_key_points db (str_of ''Important news'') = str_of ''**important** news''"
  by (simp add: emphasize_key_points_def key_words_def str_of_def match_word_def boundary_def
      word_at_def head_def ci_eq_def class_defs)

subsection \<open>Failures of the summarization calls\<close>

lemma summarize_chunks_log:
  "snd (summarize_chunks self mx mn chunks acc log) =
     log @ (if summarizer self = None then [] else chunks)"
  by (induction chunks arbitrary: acc log)
     (auto simp: call_summarizer_def split: option.splits sum.splits list.splits)

lemma failing_hub_loaded:
  "(if summarizer fresh = None then reload fresh failing_hub else fresh) =
     \<lparr>summarizer = Some failing_pipeline, tokenizer = Some char_tokenizer\<rparr>"
  by (simp add: fresh_def reload_def load_model_def failing_hub_def)

lemma scenario_chunks:
  "chunk_text \<lparr>summarizer = Some failing_pipeline, tokenizer = Some char_tokenizer\<rparr>
     failing_hub scenario_text 1024 =
   ([scenario_text], \<lparr>summarizer = Some failing_pipeline, tokenizer = Some char_tokenizer\<rparr>)"
  by (simp add: chunk_text_def char_tokenizer_def scenario_length)

text \<open>
  Claim C1, as stated, fails. On the scenario's text with a pipeline that raises at every
  call, \<open>summarize\<close> does not raise: it returns the string "Could not generate summary.".
\<close>

theorem summarize_does_not_raise:
  "fst (summarize fresh failing_hub ascii_only scenario_text example_config) =
     Inr (str_of ''Could not generate summary.'') \<and>
   failing_pipeline scenario_text 150 50 = Inl (Exception (str_of ''out of memory''))"
proof -
  have cfg: "example_config (str_of ''length'') = Some (str_of ''Medium (3-5 sentences)'')"
    by (simp add: example_config_def str_of_def)
  have glp: "get_length_params (str_of ''Medium (3-5 sentences)'') = (50, 150)"
    by (simp add: get_length_params_def str_of_def)
  have ne: "scenario_text \<noteq> []" using scenario_length by auto
  have "summarize_body fresh failing_hub ascii_only scenario_text example_config =
          (Inr (str_of ''Could not generate summary.''),
           \<lparr>summarizer = Some failing_pipeline, tokenizer = Some char_tokenizer\<rparr>,
           [scenario_text])"
    unfolding summarize_body_def failing_hub_loaded
    by (simp add: ne scenario_strip scenario_length scenario_clean cfg glp scenario_chunks
        call_summarizer_def failing_pipeline_def)
  then show ?thesis by (simp add: summarize_def failing_pipeline_def)
qed

text \<open>
  The loop in closed form: the summaries it collects are what the chunks add, one after
  the other, whatever failed in between. With it, the body of \<open>summarize\<close> on a text
  that is long enough, with a pipeline loaded and a length configured.
\<close>

lemma summarize_chunks_result:
  "fst (summarize_chunks self mx mn chunks acc log) =
     acc @ concat (map (chunk_summary self mx mn) chunks)"
  by (induction chunks arbitrary: acc log)
     (auto simp: call_summarizer_def chunk_summary_def split: option.splits sum.splits list.splits)

lemma summarize_body_loaded:
  assumes long: "50 \<le> length (strip text)"
    and loaded: "summarizer (if summarizer self = None then reload self hub else self) \<noteq> None"
    and cfg: "config (str_of ''length'') = Some length_setting"
    and chunks: "chunk_text (if summarizer self = None then reload self hub else self) hub
                   (clean_text db text) 1024 = (chunks, self2)"
    and sums: "sums = concat (map (chunk_summary self2 (snd (get_length_params length_setting))
                                     (fst (get_length_params length_setting))) chunks)"
  shows "summarize_body self hub db text config =
           (Inr (if sums = [] then str_of ''Could not generate summary.''
                 else post_process_summary db (join (str_of '' '') sums) config),
            self2, if summarizer self2 = None then [] else chunks)"
proof -
  have ne: "text \<noteq> []" using long by (auto simp: strip_def lstrip_def rstrip_def)
  obtain mn mx where glp: "get_length_params length_setting = (mn, mx)"
    by (cases "get_length_params length_setting")
  have sc: "summarize_chunks self2 mx mn chunks [] [] =
      (sums, if summarizer self2 = None then [] else chunks)"
    using summarize_chunks_result [of self2 mx mn chunks "[]" "[]"]
      summarize_chunks_log [of self2 mx mn chunks "[]" "[]"] sums glp
    by (cases "summarize_chunks self2 mx mn chunks [] []") simp
  define self1 where "self1 = (if summarizer self = None then reload self hub else self)"
  show ?thesis
    unfolding summarize_body_def self1_def [symmetric]
    using long ne loaded [folded self1_def] cfg chunks [folded self1_def] glp sc
    by (simp add: Let_def)
qed

lemma length_encode_wide: "length (encode wide_tokenizer s) = 20 * length s"
  by (induction s) (simp_all add: wide_tokenizer_def)

lemma fresh_loaded:
  "(if summarizer fresh = None then reload fresh (Some (p, t)) else fresh) =
     \<lparr>summarizer = Some p, tokenizer = Some t\<rparr>"
  by (simp add: fresh_def reload_def load_model_def)

lemma three_length: "length three_sentences = 99"
  by (simp add: three_sentences_def str_of_def)

lemma three_strip: "strip three_sentences = three_sentences"
  by (simp add: three_sentences_def eval_defs)

lemma three_clean: "clean_text db three_sentences = three_sentences"
  by (simp add: clean_text_def sub_special_def three_sentences_def eval_defs)

lemma three_split:
  "re_split_sentences three_sentences =
     [str_of ''This is a very important decision'', str_of '' We need to finalize it by Friday'',
      str_of '' We should tell the whole team'', []]"
  by (simp add: three_sentences_def eval_defs)

lemma three_chunks:
  "chunk_text \<lparr>summarizer = Some p, tokenizer = Some wide_tokenizer\<rparr> hub three_sentences 1024 =
     ([str_of ''This is a very important decision.'', str_of ''We need to finalize it by Friday.'',
       str_of ''We should tell the whole team. .''],
      \<lparr>summarizer = Some p, tokenizer = Some wide_tokenizer\<rparr>)"
  by (simp add: chunk_text_def length_encode_wide three_length three_split Let_def str_of_def
      strip_def lstrip_def rstrip_def is_space_def)

text \<open>
  Claim C1, amended. When the text is long enough, the pipeline is loaded and the
  configuration has a length, \<open>summarize\<close> raises nothing. Its result is built from the
  summaries of the chunks whose call succeeded, in the order of the chunks: a failed call
  adds nothing and stops nothing, and a loaded pipeline is invoked on every chunk. When
  the call fails on every chunk, the result is the string "Could not generate summary.".
\<close>

theorem summarize_skips_failures:
  assumes long: "50 \<le> length (strip text)"
    and loaded: "summarizer (if summarizer self = None then reload self hub else self) \<noteq> None"
    and cfg: "config (str_of ''length'') = Some length_setting"
    and chunks: "chunk_text (if summarizer self = None then reload self hub else self) hub
                   (clean_text db text) 1024 = (chunks, self2)"
    and sums: "sums = concat (map (chunk_summary self2 (snd (get_length_params length_setting))
                                     (fst (get_length_params length_setting))) chunks)"
  shows "summarize self hub db text config =
           (Inr (if sums = [] then str_of ''Could not generate summary.''
                 else post_process_summary db (join (str_of '' '') sums) config),
            self2, if summarizer self2 = None then [] else chunks) \<and>
         ((\<forall>chunk\<in>set chunks.
             isl (fst (call_summarizer self2 (snd (get_length_params length_setting))
                         (fst (get_length_params length_setting)) chunk []))) \<longrightarrow>
          fst (summarize self hub db text config) = Inr (str_of ''Could not generate summary.''))"
proof -
  have "summarize_body self hub db text config =
           (Inr (if sums = [] then str_of ''Could not generate summary.''
                 else post_process_summary db (join (str_of '' '') sums) config),
            self2, if summarizer self2 = None then [] else chunks)"
    using long loaded cfg chunks sums by (rule summarize_body_loaded)
  then have body: "summarize self hub db text config =
           (Inr (if sums = [] then str_of ''Could not generate summary.''
                 else post_process_summary db (join (str_of '' '') sums) config),
            self2, if summarizer self2 = None then [] else chunks)"
    by (simp add: summarize_def)
  have "sums = []"
    if "\<forall>chunk\<in>set chunks.
          isl (fst (call_summarizer self2 (snd (get_length_params length_setting))
                      (fst (get_length_params length_setting)) chunk []))"
    using that sums by (auto simp: chunk_summary_def isl_def)
  with body show ?thesis by simp
qed

theorem summarize_skips_failures_witness:
  "50 \<le> length (strip three_sentences) \<and>
   general_config (str_of ''length'') = Some (str_of ''Medium (3-5 sentences)'') \<and>
   summarize fresh flaky_hub ascii_only three_sentences general_config =
     (Inr (str_of ''This is a very important decision. We should tell the whole team. .''),
      \<lparr>summarizer = Some flaky_pipeline, tokenizer = Some wide_tokenizer\<rparr>,
      [str_of ''This is a very important decision.'', str_of ''We need to finalize it by Friday.'',
       str_of ''We should tell the whole team. .'']) \<and>
   fst (summarize fresh failing_wide_hub ascii_only three_sentences general_config) =
     Inr (str_of ''Could not generate summary.'')"
proof -
  let ?chunks = "[str_of ''This is a very important decision.'',
       str_of ''We need to finalize it by Friday.'', str_of ''We should tell the whole team. .'']"
  let ?flaky = "\<lparr>summarizer = Some flaky_pipeline, tokenizer = Some wide_tokenizer\<rparr>"
  let ?failing = "\<lparr>summarizer = Some failing_pipeline, tokenizer = Some wide_tokenizer\<rparr>"
  let ?l = "str_of ''Medium (3-5 sentences)''"
  have long: "50 \<le> length (strip three_sentences)"
    by (simp add: three_strip three_length)
  have cfg: "general_config (str_of ''length'') = Some ?l"
    by (simp add: general_config_def str_of_def)
  have loaded1: "summarizer (if summarizer fresh = None then reload fresh flaky_hub else fresh) \<noteq> None"
    by (simp only: flaky_hub_def fresh_loaded) simp
  have loaded2: "summarizer (if summarizer fresh = None then reload fresh failing_wide_hub else fresh) \<noteq> None"
    by (simp only: failing_wide_hub_def fresh_loaded) simp
  have chunks1: "chunk_text (if summarizer fresh = None then reload fresh flaky_hub else fresh)
      flaky_hub (clean_text ascii_only three_sentences) 1024 = (?chunks, ?flaky)"
    by (simp only: flaky_hub_def fresh_loaded three_clean three_chunks)
  have chunks2: "chunk_text (if summarizer fresh = None then reload fresh failing_wide_hub else fresh)
      failing_wide_hub (clean_text ascii_only three_sentences) 1024 = (?chunks, ?failing)"
    by (simp only: failing_wide_hub_def fresh_loaded three_clean three_chunks)
  have sums1: "[str_of ''This is a very important decision.'', str_of ''We should tell the whole team. .''] =
      concat (map (chunk_summary ?flaky (snd (get_length_params ?l)) (fst (get_length_params ?l))) ?chunks)"
    by (simp add: chunk_summary_def call_summarizer_def flaky_pipeline_def str_of_def)
  have sums2: "[] =
      concat (map (chunk_summary ?failing (snd (get_length_params ?l)) (fst (get_length_params ?l))) ?chunks)"
    by (simp add: chunk_summary_def call_summarizer_def failing_pipeline_def)
  have fail2: "\<forall>chunk\<in>set ?chunks.
      isl (fst (call_summarizer ?failing (snd (get_length_params ?l)) (fst (get_length_params ?l)) chunk []))"
    by (simp add: call_summarizer_def failing_pipeline_def)
  have post: "post_process_summary ascii_only
      (join (str_of '' '') [str_of ''This is a very important decision.'', str_of ''We should tell the whole team. .''])
      general_config = str_of ''This is a very important decision. We should tell the whole team. .''"
    by (simp add: post_process_summary_def general_config_def str_of_def)
  have r1: "summarize fresh flaky_hub ascii_only three_sentences general_config =
     (Inr (str_of ''This is a very important decision. We should tell the whole team. .''),
      ?flaky, ?chunks)"
    using summarize_skips_failures [of three_sentences fresh flaky_hub general_config ?l
        ascii_only ?chunks ?flaky _, OF long loaded1 cfg chunks1 sums1] post
    by simp
  have r2: "fst (summarize fresh failing_wide_hub ascii_only three_sentences general_config) =
     Inr (str_of ''Could not generate summary.'')"
    using summarize_skips_failures [of three_sentences fresh failing_wide_hub general_config ?l
        ascii_only ?chunks ?failing _, OF long loaded2 cfg chunks2 sums2] fail2
    by simp
  show ?thesis using long cfg r1 r2 by simp
qed

subsection \<open>Totality of summarize\<close>

lemma chunk_text_keeps_loaded:
  "tokenizer self \<noteq> None \<Longrightarrow> snd (chunk_text self hub t m) = self"
  by (auto simp: chunk_text_def Let_def split: option.splits prod.splits)

lemma long_not_empty: "50 \<le> length (strip t) \<Longrightarrow> t \<noteq> []"
  by (auto simp: strip_def lstrip_def rstrip_def)

text \<open>
  Claim C10. \<open>summarize\<close> always returns a string and never an exception: whatever its
  body raises comes back as "Summarization failed: " followed by \<open>str(e)\<close>. The failures
  inside, each on a text that is long enough: when the model cannot be loaded the result
  is "Summarization failed: Failed to load summarization model"; when the configuration
  has no length it is "Summarization failed: 'length'"; when the pipeline has been lost
  (the tokenizer was missing and reloading failed) every call raises \<open>TypeError\<close>, which
  is caught, and the result is "Could not generate summary."; and so it is when the
  pipeline raises on every chunk.
\<close>

theorem summarize_total:
  "(\<exists>s. fst (summarize self hub db text config) = Inr s \<and>
        (case fst (summarize_body self hub db text config) of
           Inl e \<Rightarrow> s = str_of ''Summarization failed: '' @ str_exn e
         | Inr s' \<Rightarrow> s = s')) \<and>
   (50 \<le> length (strip text) \<and> summarizer self = None \<and> hub = None \<longrightarrow>
      summarize self hub db text config =
        (Inr (str_of ''Summarization failed: Failed to load summarization model''),
         reload self hub, [])) \<and>
   (50 \<le> length (strip text) \<and>
    summarizer (if summarizer self = None then reload self hub else self) \<noteq> None \<and>
    config (str_of ''length'') = None \<longrightarrow>
      summarize self hub db text config =
        (Inr (str_of ''Summarization failed: '' @ 39 # str_of ''length'' @ [39]),
         if summarizer self = None then reload self hub else self, [])) \<and>
   (50 \<le> length (strip text) \<and> summarizer self \<noteq> None \<and> tokenizer self = None \<and>
    hub = None \<and> config (str_of ''length'') \<noteq> None \<longrightarrow>
      summarize self hub db text config =
        (Inr (str_of ''Could not generate summary.''), reload self hub, [])) \<and>
   (50 \<le> length (strip text) \<and> summarizer self = Some p \<and> tokenizer self \<noteq> None \<and>
    config (str_of ''length'') = Some length_setting \<and>
    (\<forall>chunk. isl (p chunk (snd (get_length_params length_setting))
                     (fst (get_length_params length_setting)))) \<longrightarrow>
      fst (summarize self hub db text config) = Inr (str_of ''Could not generate summary.''))"
proof -
  have total: "\<exists>s. fst (summarize self hub db text config) = Inr s \<and>
        (case fst (summarize_body self hub db text config) of
           Inl e \<Rightarrow> s = str_of ''Summarization failed: '' @ str_exn e
         | Inr s' \<Rightarrow> s = s')"
    by (cases "summarize_body self hub db text config" rule: prod_cases3)
       (auto simp: summarize_def split: sum.splits)
  have load: "summarize self hub db text config =
        (Inr (str_of ''Summarization failed: Failed to load summarization model''),
         reload self hub, [])"
    if "50 \<le> length (strip text)" "summarizer self = None" "hub = None"
    using that long_not_empty [of "text"]
    by (simp add: summarize_def summarize_body_def reload_def load_model_def str_of_def)
  have key: "summarize self hub db text config =
        (Inr (str_of ''Summarization failed: '' @ 39 # str_of ''length'' @ [39]),
         if summarizer self = None then reload self hub else self, [])"
    if long: "50 \<le> length (strip text)"
      and loaded: "summarizer (if summarizer self = None then reload self hub else self) \<noteq> None"
      and cfg: "config (str_of ''length'') = None"
  proof -
    define self1 where "self1 = (if summarizer self = None then reload self hub else self)"
    have "summarize_body self hub db text config = (Inl (KeyError (str_of ''length'')), self1, [])"
      unfolding summarize_body_def self1_def [symmetric]
      using long long_not_empty [OF long] loaded [folded self1_def] cfg by (simp add: Let_def)
    then show ?thesis by (simp add: summarize_def self1_def)
  qed
  have none: "summarize self hub db text config =
        (Inr (str_of ''Could not generate summary.''), reload self hub, [])"
    if long: "50 \<le> length (strip text)" and s: "summarizer self \<noteq> None"
      and t: "tokenizer self = None" and h: "hub = None"
      and cfg: "config (str_of ''length'') \<noteq> None"
  proof -
    from cfg obtain l where l: "config (str_of ''length'') = Some l" by auto
    have self1: "(if summarizer self = None then reload self hub else self) = self"
      using s by auto
    have loaded: "summarizer (if summarizer self = None then reload self hub else self) \<noteq> None"
      using s by auto
    have chunks: "chunk_text (if summarizer self = None then reload self hub else self) hub
        (clean_text db text) 1024 = ([take 2000 (clean_text db text)], reload self hub)"
      using t h by (simp add: self1 chunk_text_def reload_def load_model_def)
    have sums: "[] = concat (map (chunk_summary (reload self hub) (snd (get_length_params l))
        (fst (get_length_params l))) [take 2000 (clean_text db text)])"
      using h by (simp add: chunk_summary_def call_summarizer_def reload_def load_model_def)
    have "summarize_body self hub db text config =
        (Inr (if ([]::pystr list) = [] then str_of ''Could not generate summary.''
              else post_process_summary db (join (str_of '' '') []) config),
         reload self hub,
         if summarizer (reload self hub) = None then [] else [take 2000 (clean_text db text)])"
      using long loaded l chunks sums by (rule summarize_body_loaded)
    then show ?thesis using h by (simp add: summarize_def reload_def load_model_def)
  qed
  have raising: "fst (summarize self hub db text config) = Inr (str_of ''Could not generate summary.'')"
    if long: "50 \<le> length (strip text)" and s: "summarizer self = Some p"
      and t: "tokenizer self \<noteq> None"
      and cfg: "config (str_of ''length'') = Some length_setting"
      and fail: "\<forall>chunk. isl (p chunk (snd (get_length_params length_setting))
                     (fst (get_length_params length_setting)))"
  proof -
    have self1: "(if summarizer self = None then reload self hub else self) = self"
      using s by auto
    have loaded: "summarizer (if summarizer self = None then reload self hub else self) \<noteq> None"
      using s by auto
    obtain chunks where chunks: "chunk_text (if summarizer self = None then reload self hub else self)
        hub (clean_text db text) 1024 = (chunks, self)"
      using chunk_text_keeps_loaded [OF t, of hub "clean_text db text" 1024]
      by (cases "chunk_text self hub (clean_text db text) 1024") (simp add: self1)
    have sums: "[] = concat (map (chunk_summary self (snd (get_length_params length_setting))
        (fst (get_length_params length_setting))) chunks)"
    proof -
      have "chunk_summary self (snd (get_length_params length_setting))
              (fst (get_length_params length_setting)) chunk = []" for chunk
      proof -
        from fail obtain e where
          "p chunk (snd (get_length_params length_setting))
             (fst (get_length_params length_setting)) = Inl e"
          by (auto simp: isl_def)
        then show ?thesis using s by (simp add: chunk_summary_def call_summarizer_def)
      qed
      then show ?thesis by simp
    qed
    have "summarize_body self hub db text config =
        (Inr (if ([]::pystr list) = [] then str_of ''Could not generate summary.''
              else post_process_summary db (join (str_of '' '') []) config),
         self, if summarizer self = None then [] else chunks)"
      using long loaded cfg chunks sums by (rule summarize_body_loaded)
    then show ?thesis by (simp add: summarize_def)
  qed
  from total load key none raising show ?thesis by blast
qed

theorem summarize_total_witness:
  "summarize fresh None ascii_only scenario_text example_config =
     (Inr (str_of ''Summarization failed: Failed to load summarization model''), fresh, []) \<and>
   summarize fresh failing_hub ascii_only scenario_text empty_config =
     (Inr (str_of ''Summarization failed: '' @ 39 # str_of ''length'' @ [39]),
      loaded_failing, []) \<and>
   summarize half_loaded None ascii_only scenario_text example_config =
     (Inr (str_of ''Could not generate summary.''), fresh, []) \<and>
   fst (summarize loaded_failing None ascii_only scenario_text example_config) =
     Inr (str_of ''Could not generate summary.'')"
proof -
  let ?l = "str_of ''Medium (3-5 sentences)''"
  have long: "50 \<le> length (strip scenario_text)"
    by (simp add: scenario_strip scenario_length)
  have cfg: "example_config (str_of ''length'') = Some ?l"
    by (simp add: example_config_def str_of_def)
  have fail: "\<forall>chunk. isl (failing_pipeline chunk (snd (get_length_params ?l))
      (fst (get_length_params ?l)))"
    by (simp add: failing_pipeline_def)
  have fresh_reload: "reload fresh None = fresh"
    by (simp add: reload_def load_model_def fresh_def)
  have half_reload: "reload half_loaded None = fresh"
    by (simp add: reload_def load_model_def fresh_def half_loaded_def)
  have loaded: "(if summarizer fresh = None then reload fresh failing_hub else fresh) = loaded_failing"
    by (simp only: failing_hub_def fresh_loaded loaded_failing_def)
  have a: "summarize fresh None ascii_only scenario_text example_config =
     (Inr (str_of ''Summarization failed: Failed to load summarization model''), fresh, [])"
    using summarize_total [of fresh None ascii_only scenario_text example_config failing_pipeline ?l]
      long fresh_reload
    by (simp add: fresh_def)
  have b: "summarize fresh failing_hub ascii_only scenario_text empty_config =
     (Inr (str_of ''Summarization failed: '' @ 39 # str_of ''length'' @ [39]), loaded_failing, [])"
    using summarize_total [of fresh failing_hub ascii_only scenario_text empty_config failing_pipeline ?l]
      long
    by (simp only: loaded) (simp add: loaded_failing_def empty_config_def)
  have c: "summarize half_loaded None ascii_only scenario_text example_config =
     (Inr (str_of ''Could not generate summary.''), fresh, [])"
    using summarize_total [of half_loaded None ascii_only scenario_text example_config failing_pipeline ?l]
      long cfg half_reload
    by (simp add: half_loaded_def)
  have d: "fst (summarize loaded_failing None ascii_only scenario_text example_config) =
     Inr (str_of ''Could not generate summary.'')"
    using summarize_total [of loaded_failing None ascii_only scenario_text example_config failing_pipeline ?l]
      long cfg fail
    by (simp add: loaded_failing_def)
  from a b c d show ?thesis by simp
qed

subsection \<open>Failures of transcription\<close>

text \<open>
  Claim C5, as stated, fails. With no file at the path, and with a file but no model to
  load, \<open>transcribe\<close> returns a string that starts with "Transcription failed: "; it
  raises nothing.
\<close>

theorem transcribe_returns_strings:
  "fst (transcribe unloaded None no_file (str_of ''talk.wav'') None) =
     Inr (str_of ''Transcription failed: Audio file not found: talk.wav'') \<and>
   fst (transcribe unloaded None every_file (str_of ''talk.wav'') None) =
     Inr (str_of ''Transcription failed: Failed to load Whisper model'')"
  by (simp add: transcribe_def transcribe_body_def unloaded_def no_file_def every_file_def
      str_of_def)

text \<open>
  Claim C5, amended. When the path does not exist, \<open>transcribe\<close> returns the string
  "Transcription failed: Audio file not found: " followed by the path; when it exists and
  no model is or can be loaded, it returns "Transcription failed: Failed to load Whisper
  model".
\<close>

theorem transcribe_failure_strings:
  "(\<not> path_exists audio_file_path \<longrightarrow>
      fst (transcribe self loaded path_exists audio_file_path language) =
        Inr (str_of ''Transcription failed: Audio file not found: '' @ audio_file_path)) \<and>
   (path_exists audio_file_path \<and> model self = None \<and> loaded = None \<longrightarrow>
      fst (transcribe self loaded path_exists audio_file_path language) =
        Inr (str_of ''Transcription failed: Failed to load Whisper model''))"
  by (simp add: transcribe_def transcribe_body_def str_of_def)

theorem transcribe_failure_strings_witness:
  "\<not> no_file (str_of ''talk.wav'') \<and>
   fst (transcribe unloaded None no_file (str_of ''talk.wav'') (Some (str_of ''en''))) =
     Inr (str_of ''Transcription failed: Audio file not found: '' @ str_of ''talk.wav'') \<and>
   every_file (str_of ''talk.wav'') \<and> model unloaded = None \<and>
   fst (transcribe unloaded None every_file (str_of ''talk.wav'') (Some (str_of ''en''))) =
     Inr (str_of ''Transcription failed: Failed to load Whisper model'')"
  using transcribe_failure_strings [of no_file "str_of ''talk.wav''" unloaded None "Some (str_of ''en'')"]
    transcribe_failure_strings [of every_file "str_of ''talk.wav''" unloaded None "Some (str_of ''en'')"]
  by (simp add: no_file_def every_file_def unloaded_def)

end
